theory Spec2Isabelle
  imports Main
begin

section \<open>Event watcher of the kubernetes-event-exporter (pkg/kube/watcher.go)\<close>

text \<open>
  The watcher receives add, update and delete notifications for Event objects, drops
  events that are older than a configured age, and hands every other event, enriched
  with the metadata of its involved object, to a handler. The model below follows
  \<^verbatim>\<open>watcher.go\<close> function by function. Everything the Go code does beyond
  computing a value is explicit: the clock, the package-level variable
  \<^verbatim>\<open>startUpTime\<close>, the Event objects the notifications point to, the
  metrics stores the watchers point to, and the calls made to the logger, to the
  counters, to the metadata provider and to the handler (a trace, oldest call first).
\<close>

subsection \<open>Time\<close>

text \<open>
  A \<^verbatim>\<open>time.Time\<close> is an instant, counted here in nanoseconds from Go's zero
  instant (January 1 of year 1, UTC), so \<^verbatim>\<open>IsZero\<close> is equality with 0. A
  \<^verbatim>\<open>time.Duration\<close> is a signed 64-bit count of nanoseconds;
  \<^verbatim>\<open>Time.Sub\<close> saturates at the ends of that range.
\<close>

type_synonym Time = int
type_synonym Duration = int

definition maxDuration :: Duration where
  "maxDuration = 9223372036854775807"

definition minDuration :: Duration where
  "minDuration = - 9223372036854775808"

definition IsZero :: "Time \<Rightarrow> bool" where
  "IsZero t = (t = 0)"

definition After :: "Time \<Rightarrow> Time \<Rightarrow> bool" where
  "After t u = (u < t)"

definition Sub :: "Time \<Rightarrow> Time \<Rightarrow> Duration" where
  "Sub t u =
     (if maxDuration < t - u then maxDuration
      else if t - u < minDuration then minDuration
      else t - u)"

subsection \<open>Events, object references and enhanced events\<close>

text \<open>
  The Kubernetes API types, with the fields the watcher reads or writes. Pointers to
  Event objects are addresses (\<open>ptr\<close>) into the \<open>heap\<close> of the world below; a
  \<^verbatim>\<open>nil\<close> pointer is an address the heap does not hold.
\<close>

type_synonym ptr = nat

record ObjectReference =
  Kind :: string
  Namespace :: string
  Name :: string
  UID :: string
  APIVersion :: string
  ResourceVersion :: string
  FieldPath :: string

record OwnerReference =
  APIVersion :: string
  Kind :: string
  Name :: string
  UID :: string
  Controller :: "bool option"

record ObjectMeta =
  Name :: string
  Namespace :: string
  ManagedFields :: "string list"

record EventSeries =
  Count :: int
  LastObservedTime :: Time

record Event =
  ObjectMeta :: ObjectMeta
  InvolvedObject :: ObjectReference
  Reason :: string
  Message :: string
  FirstTimestamp :: Time
  LastTimestamp :: Time
  Count :: int
  Type :: string
  EventTime :: Time
  Series :: "EventSeries option"

text \<open>
  \<^verbatim>\<open>ObjectMetadata\<close>, \<^verbatim>\<open>EnhancedObjectReference\<close> and
  \<^verbatim>\<open>EnhancedEvent\<close> are declared in files of package \<^verbatim>\<open>kube\<close> that
  are not part of the sources at hand; their fields are the ones
  \<^verbatim>\<open>onEvent\<close> assigns (watcher.go lines 115 to 137). An EnhancedEvent embeds
  the Event and shadows its \<^verbatim>\<open>InvolvedObject\<close> with the enhanced reference.
\<close>

record ObjectMetadata =
  Annotations :: "string \<rightharpoonup> string"
  Labels :: "string \<rightharpoonup> string"
  OwnerReferences :: "OwnerReference list"
  Deleted :: bool

record EnhancedObjectReference =
  ObjectReference :: ObjectReference
  Labels :: "string \<rightharpoonup> string"
  Annotations :: "string \<rightharpoonup> string"
  OwnerReferences :: "OwnerReference list"
  Deleted :: bool

record EnhancedEvent =
  Event :: Event
  ClusterName :: string
  InvolvedObject :: EnhancedObjectReference

text \<open>The zero values Go gives to fields a composite literal leaves out.\<close>

definition zeroObjectReference :: ObjectReference where
  "zeroObjectReference =
     \<lparr>ObjectReference.Kind = [], Namespace = [], Name = [], UID = [],
      APIVersion = [], ResourceVersion = [], FieldPath = []\<rparr>"

definition zeroEnhancedObjectReference :: EnhancedObjectReference where
  "zeroEnhancedObjectReference =
     \<lparr>ObjectReference = zeroObjectReference, Labels = Map.empty,
      Annotations = Map.empty, OwnerReferences = [], Deleted = False\<rparr>"

text \<open>
  \<^verbatim>\<open>DeepCopy\<close> returns a fresh object with the same contents that shares no
  memory with its argument. On values that is the identity; what the copy adds is that
  later writes go to the copy, so the object on the heap is not written.
\<close>

definition DeepCopy :: "Event \<Rightarrow> Event" where
  "DeepCopy event = event"

definition DeepCopyObjectReference :: "ObjectReference \<Rightarrow> ObjectReference" where
  "DeepCopyObjectReference reference = reference"

subsection \<open>Errors, counters and the trace of calls\<close>

text \<open>
  A Go \<^verbatim>\<open>error\<close> value. \<^verbatim>\<open>errors.IsNotFound\<close> recognises the API
  server's "not found" status; every other error is a \<open>Failure\<close>.
\<close>

datatype error = NotFound string | Failure string

fun IsNotFound :: "error \<Rightarrow> bool" where
  "IsNotFound (NotFound _) = True"
| "IsNotFound (Failure _) = False"

text \<open>What stops a call: a run-time panic of the Go program.\<close>

datatype panic = NilPointerDereference | InterfaceConversion

text \<open>
  \<^verbatim>\<open>metrics.Store\<close> (pkg/metrics/metrics.go) is a struct of counters; a store
  is the reading of each of them. A watcher holds a pointer to its store.
\<close>

datatype counter =
  EventsProcessed | EventsDiscarded | WatchErrors | SendErrors
| KubeApiReadCacheHits | KubeApiReadRequests

type_synonym Store = "counter \<Rightarrow> nat"

datatype level = Debug | Warn | Error

datatype field = Str string string | Dur string Duration | Err error

datatype effect =
  Log level "field list" string
| CounterInc ptr counter
| GetObjectMetadataCall ObjectReference
| Fn nat EnhancedEvent

record World =
  now :: Time
  startUpTime :: Time
  heap :: "ptr \<rightharpoonup> Event"
  stores :: "ptr \<Rightarrow> Store"
  trace :: "effect list"

definition emit :: "effect \<Rightarrow> World \<Rightarrow> World" where
  "emit x w = w\<lparr>trace := trace w @ [x]\<rparr>"

definition Inc :: "ptr \<Rightarrow> counter \<Rightarrow> World \<Rightarrow> World" where
  "Inc s c w =
     emit (CounterInc s c)
       (w\<lparr>stores := (stores w)(s := (stores w s)(c := Suc (stores w s c)))\<rparr>)"

definition Since :: "World \<Rightarrow> Time \<Rightarrow> Duration" where
  "Since w t = Sub (now w) t"

text \<open>The calls made between two worlds: what the later trace adds to the earlier.\<close>

definition effectsSince :: "World \<Rightarrow> World \<Rightarrow> effect list" where
  "effectsSince w w' = drop (length (trace w)) (trace w')"

fun isFn :: "effect \<Rightarrow> bool" where
  "isFn (Fn _ _) = True"
| "isFn _ = False"

fun isGetObjectMetadataCall :: "effect \<Rightarrow> bool" where
  "isGetObjectMetadataCall (GetObjectMetadataCall _) = True"
| "isGetObjectMetadataCall _ = False"

subsection \<open>The watcher\<close>

text \<open>
  The fields of \<^verbatim>\<open>EventWatcher\<close> that event processing uses. The handler
  \<^verbatim>\<open>fn\<close> is named by a number and its calls are recorded in the trace. The
  metadata provider is an interface whose implementation is not among the sources.

  Modelled from the spec: the ObjectMetadataProvider behind
  \<^verbatim>\<open>objectMetadataCache\<close>. Per reference it answers with a metadata value and
  an error (or none), from its cache (a hit) or from the control plane (a miss); a hit
  increments the cache-hit counter and a miss the read-request counter of the store it
  is given.
\<close>

record lookup =
  cacheHit :: bool
  found :: ObjectMetadata
  failure :: "error option"

record EventWatcher =
  objectMetadataCache :: "ObjectReference \<Rightarrow> lookup"
  omitLookup :: bool
  fn :: nat
  maxEventAgeSeconds :: Duration
  metricsStore :: ptr

definition GetObjectMetadata ::
  "(ObjectReference \<Rightarrow> lookup) \<Rightarrow> ObjectReference \<Rightarrow> ptr \<Rightarrow> World
     \<Rightarrow> (ObjectMetadata \<times> error option) \<times> World" where
  "GetObjectMetadata cache reference ms w =
     (let r = cache reference;
          w1 = emit (GetObjectMetadataCall reference) w;
          w2 = Inc ms (if cacheHit r then KubeApiReadCacheHits else KubeApiReadRequests) w1
      in ((found r, failure r), w2))"

text \<open>
  watcher.go lines 76 to 83: the most recent timestamp of an event, the series first,
  then LastTimestamp, then EventTime.
\<close>

definition eventTimestamp :: "Event \<Rightarrow> Time" where
  "eventTimestamp event =
     (case Series event of
        Some series \<Rightarrow>
          if \<not> IsZero (LastObservedTime series) then LastObservedTime series
          else if \<not> IsZero (LastTimestamp event) then LastTimestamp event
          else EventTime event
      | None \<Rightarrow>
          if \<not> IsZero (LastTimestamp event) then LastTimestamp event
          else EventTime event)"

text \<open>watcher.go lines 74 to 99.\<close>

definition isEventDiscarded :: "EventWatcher \<Rightarrow> ptr \<Rightarrow> World \<Rightarrow> panic + (bool \<times> World)" where
  "isEventDiscarded e p w =
     (case heap w p of
        None \<Rightarrow> Inl NilPointerDereference
      | Some event \<Rightarrow>
          let timestamp = eventTimestamp event;
              eventAge = Since w timestamp
          in if maxEventAgeSeconds e < eventAge then
               if After timestamp (startUpTime w) then
                 Inr (True,
                      Inc (metricsStore e) EventsDiscarded
                        (emit (Log Warn
                                 [Dur ''event age'' eventAge,
                                  Str ''event namespace'' (ObjectMeta.Namespace (ObjectMeta event)),
                                  Str ''event name'' (ObjectMeta.Name (ObjectMeta event))]
                                 ''Event discarded as being older than maxEventAgeSeconds'') w))
               else Inr (True, w)
             else Inr (False, w))"

text \<open>watcher.go lines 101 to 142.\<close>

definition onEvent :: "EventWatcher \<Rightarrow> ptr \<Rightarrow> World \<Rightarrow> panic + World" where
  "onEvent e p w =
     (case isEventDiscarded e p w of
        Inl x \<Rightarrow> Inl x
      | Inr (discarded, w1) \<Rightarrow>
          if discarded then Inr w1
          else
            (case heap w1 p of
               None \<Rightarrow> Inl NilPointerDereference
             | Some event \<Rightarrow>
                 let w2 = emit (Log Debug
                                  [Str ''msg'' (Message event),
                                   Str ''namespace'' (ObjectMeta.Namespace (ObjectMeta event)),
                                   Str ''reason'' (Reason event),
                                   Str ''involvedObject''
                                     (ObjectReference.Name (Event.InvolvedObject event))]
                                  ''Received event'') w1;
                     w3 = Inc (metricsStore e) EventsProcessed w2;
                     ev0 = \<lparr>Event = DeepCopy event, ClusterName = [],
                            InvolvedObject = zeroEnhancedObjectReference\<rparr>;
                     ev = ev0\<lparr>Event := (Event ev0)
                            \<lparr>ObjectMeta := (ObjectMeta (Event ev0))\<lparr>ManagedFields := []\<rparr>\<rparr>\<rparr>
                 in if omitLookup e then
                      Inr (emit (Fn (fn e)
                        (ev\<lparr>InvolvedObject := (InvolvedObject ev)
                           \<lparr>ObjectReference :=
                              DeepCopyObjectReference (Event.InvolvedObject event)\<rparr>\<rparr>)) w3)
                    else
                      (case GetObjectMetadata (objectMetadataCache e)
                              (Event.InvolvedObject event) (metricsStore e) w3 of
                         ((objectMetadata, Some er), w4) \<Rightarrow>
                           if IsNotFound er then
                             Inr (emit (Fn (fn e)
                               (ev\<lparr>InvolvedObject := (InvolvedObject ev)
                                  \<lparr>Deleted := True,
                                   ObjectReference :=
                                     DeepCopyObjectReference (Event.InvolvedObject event)\<rparr>\<rparr>))
                               (emit (Log Error [Err er] ''Object not found, likely deleted'') w4))
                           else
                             Inr (emit (Fn (fn e)
                               (ev\<lparr>InvolvedObject := (InvolvedObject ev)
                                  \<lparr>ObjectReference :=
                                     DeepCopyObjectReference (Event.InvolvedObject event)\<rparr>\<rparr>))
                               (emit (Log Error [Err er] ''Failed to get object metadata'') w4))
                       | ((objectMetadata, None), w4) \<Rightarrow>
                           Inr (emit (Fn (fn e)
                             (ev\<lparr>InvolvedObject := (InvolvedObject ev)
                                \<lparr>Labels := ObjectMetadata.Labels objectMetadata,
                                 Annotations := ObjectMetadata.Annotations objectMetadata,
                                 OwnerReferences := ObjectMetadata.OwnerReferences objectMetadata,
                                 ObjectReference :=
                                   DeepCopyObjectReference (Event.InvolvedObject event),
                                 Deleted := ObjectMetadata.Deleted objectMetadata\<rparr>\<rparr>)) w4))))"

text \<open>
  The notifications of the informer (watcher.go lines 61 to 71 and 144 to 146). The
  object of a notification is an \<^verbatim>\<open>interface{}\<close>: a pointer to an Event, or a
  value of another type, on which the type assertion panics.
\<close>

datatype obj = EventPtr ptr | OtherObj

definition OnAdd :: "EventWatcher \<Rightarrow> obj \<Rightarrow> bool \<Rightarrow> World \<Rightarrow> panic + World" where
  "OnAdd e ob isInInitialList w =
     (case ob of
        EventPtr event \<Rightarrow> onEvent e event w
      | OtherObj \<Rightarrow> Inl InterfaceConversion)"

definition OnUpdate :: "EventWatcher \<Rightarrow> obj \<Rightarrow> obj \<Rightarrow> World \<Rightarrow> panic + World" where
  "OnUpdate e oldObj newObj w =
     (case newObj of
        EventPtr event \<Rightarrow> onEvent e event w
      | OtherObj \<Rightarrow> Inl InterfaceConversion)"

definition OnDelete :: "EventWatcher \<Rightarrow> obj \<Rightarrow> World \<Rightarrow> panic + World" where
  "OnDelete e ob w = Inr w"


section \<open>Destination adapters (pkg/sinks/teams.go, pkg/sinks/loki.go)\<close>

text \<open>
  \<^verbatim>\<open>Send\<close> builds a payload from the event, posts it and reports the outcome
  as an error value (\<open>None\<close> is Go's \<^verbatim>\<open>nil\<close>). What the two adapters call
  outside their own files is a parameter of the model, the environment \<open>Env\<close>: the
  helpers \<^verbatim>\<open>serializeEventWithLayout\<close> and \<^verbatim>\<open>GetString\<close> of package
  \<^verbatim>\<open>sinks\<close> (not among the sources at hand), the JSON encoder and decoder,
  \<^verbatim>\<open>http.NewRequest\<close>, the HTTP client and the clock. The context argument
  of \<^verbatim>\<open>Send\<close> is not used by either adapter and is left out, and so are the
  debug log lines of the Loki adapter.
\<close>

type_synonym Layout = "(string \<times> string) list"

record Request =
  Method :: string
  URL :: string
  Header :: "(string \<times> string) list"
  Body :: string

text \<open>
  A response as \<^verbatim>\<open>Send\<close> sees it: the status code, and what reading the body
  to its end gives (the bytes, or a read error).
\<close>

record Response =
  StatusCode :: int
  Body :: "error + string"

record promtailStream =
  Stream :: "(string \<times> string) list"
  Values :: "string list list"

record LokiMsg =
  Streams :: "promtailStream list"

record Env =
  serializeEventWithLayout :: "Layout \<Rightarrow> EnhancedEvent \<Rightarrow> error + string"
  GetString :: "EnhancedEvent \<Rightarrow> string \<Rightarrow> error + string"
  Sprint :: "string \<Rightarrow> string \<Rightarrow> string"
  Marshal :: "(string \<times> string) list \<Rightarrow> error + string"
  MarshalLokiMsg :: "LokiMsg \<Rightarrow> error + string"
  NewRequest :: "string \<Rightarrow> string \<Rightarrow> string \<Rightarrow> error + Request"
  Do :: "Request \<Rightarrow> error + Response"
  unixNow :: string
  basicAuth :: "string \<Rightarrow> string \<Rightarrow> string"

text \<open>
  \<open>Sprint env event key\<close> is the \<^verbatim>\<open>%s\<close> rendering of
  \<^verbatim>\<open>eventData[key]\<close> after \<^verbatim>\<open>json.Unmarshal\<close> of \<open>event\<close> (whose
  error teams.go ignores); \<open>unixNow\<close> is
  \<^verbatim>\<open>strconv.FormatInt(time.Now().Unix(), 10)\<close>; \<open>basicAuth\<close> is the value
  \<^verbatim>\<open>SetBasicAuth\<close> gives the Authorization header.
\<close>

record TeamsConfig =
  Endpoint :: string
  Layout :: Layout
  Headers :: "(string \<times> string) list"

record LokiConfig =
  Layout :: Layout
  StreamLabels :: "(string \<times> string) list"
  URL :: string
  Headers :: "(string \<times> string) list"
  Username :: string
  Password :: string

definition HeaderAdd :: "string \<Rightarrow> string \<Rightarrow> Request \<Rightarrow> Request" where
  "HeaderAdd k v req = req\<lparr>Header := Header req @ [(k, v)]\<rparr>"

definition HeaderSet :: "string \<Rightarrow> string \<Rightarrow> Request \<Rightarrow> Request" where
  "HeaderSet k v req = req\<lparr>Header := filter (\<lambda>kv. fst kv \<noteq> k) (Header req) @ [(k, v)]\<rparr>"

fun HasPrefix :: "string \<Rightarrow> string \<Rightarrow> bool" where
  "HasPrefix s [] = True"
| "HasPrefix [] (c # cs) = False"
| "HasPrefix (x # xs) (c # cs) = (x = c \<and> HasPrefix xs cs)"

fun Contains :: "string \<Rightarrow> string \<Rightarrow> bool" where
  "Contains [] substr = (substr = [])"
| "Contains (x # xs) substr = (HasPrefix (x # xs) substr \<or> Contains xs substr)"

text \<open>teams.go lines 33 to 82.\<close>

definition Teams_Send :: "Env \<Rightarrow> TeamsConfig \<Rightarrow> EnhancedEvent \<Rightarrow> error option" where
  "Teams_Send env cfg ev =
     (case serializeEventWithLayout env (TeamsConfig.Layout cfg) ev of
        Inl err \<Rightarrow> Some err
      | Inr event \<Rightarrow>
          let output = ''Event: '' @ Sprint env event ''message'' @ '' '' @ [CHR 0x0A]
                       @ ''Status: '' @ Sprint env event ''reason'' @ '' '' @ [CHR 0x0A]
                       @ ''Metadata: '' @ Sprint env event ''metadata''
          in (case Marshal env [(''summary'', ''event''), (''text'', output)] of
                Inl err \<Rightarrow> Some err
              | Inr reqBody \<Rightarrow>
                  (case NewRequest env ''POST'' (Endpoint cfg) reqBody of
                     Inl err \<Rightarrow> Some err
                   | Inr req0 \<Rightarrow>
                       let req1 = HeaderAdd ''Content-Type'' ''application/json'' req0;
                           req = fold (\<lambda>kv. HeaderAdd (fst kv) (snd kv))
                                   (TeamsConfig.Headers cfg) req1
                       in (case Do env req of
                             Inl err \<Rightarrow> None
                           | Inr resp \<Rightarrow>
                               (case Response.Body resp of
                                  Inl err \<Rightarrow> Some err
                                | Inr message \<Rightarrow>
                                    if StatusCode resp \<noteq> 200 then
                                      Some (Failure (''not 200: '' @ message))
                                    else if Contains message
                                      ''Microsoft Teams endpoint returned HTTP error 429'' then
                                      Some (Failure (''rate limited: '' @ message))
                                    else None)))))"

text \<open>loki.go lines 54 to 61.\<close>

definition generateTimestamp :: "Env \<Rightarrow> string" where
  "generateTimestamp env = unixNow env @ ''000000000''"

definition containsTemplatePattern :: "string \<Rightarrow> bool" where
  "containsTemplatePattern s = (Contains s ''{{'' \<and> Contains s ''}}'')"

text \<open>loki.go lines 63 to 140.\<close>

definition Loki_Send :: "Env \<Rightarrow> LokiConfig \<Rightarrow> EnhancedEvent \<Rightarrow> error option" where
  "Loki_Send env cfg ev =
     (case serializeEventWithLayout env (LokiConfig.Layout cfg) ev of
        Inl err \<Rightarrow> Some err
      | Inr eventBody \<Rightarrow>
          let timestamp = generateTimestamp env;
              processedLabels =
                map (\<lambda>kv.
                       if containsTemplatePattern (snd kv) then
                         (case GetString env ev (snd kv) of
                            Inl err \<Rightarrow> (fst kv, snd kv)
                          | Inr processed \<Rightarrow> (fst kv, processed))
                       else (fst kv, snd kv))
                    (StreamLabels cfg);
              a = \<lparr>Streams = [\<lparr>Stream = processedLabels,
                                Values = [[timestamp, eventBody]]\<rparr>]\<rparr>
          in (case MarshalLokiMsg env a of
                Inl err \<Rightarrow> Some err
              | Inr reqBody \<Rightarrow>
                  (case NewRequest env ''POST'' (LokiConfig.URL cfg) reqBody of
                     Inl err \<Rightarrow> Some err
                   | Inr req0 \<Rightarrow>
                       let req1 = HeaderSet ''Content-Type'' ''application/json'' req0;
                           req2 = (if Username cfg \<noteq> [] \<and> Password cfg \<noteq> [] then
                                     HeaderSet ''Authorization''
                                       (basicAuth env (Username cfg) (Password cfg)) req1
                                   else req1);
                           req = fold (\<lambda>kv.
                                    case GetString env ev (snd kv) of
                                      Inl err \<Rightarrow> HeaderAdd (fst kv) (snd kv)
                                    | Inr realValue \<Rightarrow> HeaderAdd (fst kv) realValue)
                                   (LokiConfig.Headers cfg) req2
                       in (case Do env req of
                             Inl err \<Rightarrow> Some err
                           | Inr resp \<Rightarrow>
                               (case Response.Body resp of
                                  Inl err \<Rightarrow> Some err
                                | Inr body \<Rightarrow>
                                    if \<not> (200 \<le> StatusCode resp \<and> StatusCode resp < 300) then
                                      Some (Failure (''not successfull (2xx) response: '' @ body))
                                    else None)))))"

section \<open>Concrete inputs\<close>

text \<open>
  The inputs the closed theorems below evaluate the model on: an event about the pod
  \<^verbatim>\<open>Pod/default/web-1\<close> with reason \<^verbatim>\<open>Failed\<close>, worlds that hold it
  at address 0, and watchers on the stores 3 and 4. Times are in nanoseconds; the
  clock of every world reads 1000 seconds.
\<close>

definition podRef :: ObjectReference where
  "podRef =
     \<lparr>ObjectReference.Kind = ''Pod'', Namespace = ''default'', Name = ''web-1'',
      UID = ''uid-1'', APIVersion = ''v1'', ResourceVersion = ''41'', FieldPath = []\<rparr>"

definition failedEvent :: "Time \<Rightarrow> EventSeries option \<Rightarrow> Time \<Rightarrow> Event" where
  "failedEvent lastTimestamp series eventTime =
     \<lparr>ObjectMeta = \<lparr>ObjectMeta.Name = ''web-1.17f'', Namespace = ''default'',
                     ManagedFields = [''kubelet'']\<rparr>,
      InvolvedObject = podRef, Reason = ''Failed'', Message = ''Back-off'',
      FirstTimestamp = lastTimestamp, LastTimestamp = lastTimestamp, Count = 1,
      Type = ''Warning'', EventTime = eventTime, Series = series\<rparr>"

definition world :: "Time \<Rightarrow> Event \<Rightarrow> World" where
  "world start event =
     \<lparr>now = 1000000000000, startUpTime = start, heap = [0 \<mapsto> event],
      stores = (\<lambda>s c. 0), trace = []\<rparr>"

definition podMetadata :: ObjectMetadata where
  "podMetadata =
     \<lparr>ObjectMetadata.Annotations = [''team'' \<mapsto> ''shop''], Labels = [''app'' \<mapsto> ''web''],
      OwnerReferences =
        [\<lparr>OwnerReference.APIVersion = ''apps/v1'', Kind = ''ReplicaSet'', Name = ''web'',
          UID = ''uid-0'', Controller = Some True\<rparr>],
      Deleted = False\<rparr>"

definition answer :: "error option \<Rightarrow> ObjectReference \<Rightarrow> lookup" where
  "answer failed reference = \<lparr>cacheHit = False, found = podMetadata, failure = failed\<rparr>"

definition watcher ::
  "ptr \<Rightarrow> bool \<Rightarrow> Duration \<Rightarrow> error option \<Rightarrow> EventWatcher" where
  "watcher store omit maxAge failed =
     \<lparr>objectMetadataCache = answer failed, omitLookup = omit, fn = 7,
      maxEventAgeSeconds = maxAge, metricsStore = store\<rparr>"

text \<open>
  What a run leaves behind, for closed statements: the verdict of the age filter, the
  reading of a counter, the handler's calls and the number of warnings.
\<close>

definition decision :: "panic + (bool \<times> World) \<Rightarrow> bool option" where
  "decision r = (case r of Inl x \<Rightarrow> None | Inr dw \<Rightarrow> Some (fst dw))"

definition counterAfter :: "panic + World \<Rightarrow> ptr \<Rightarrow> counter \<Rightarrow> nat option" where
  "counterAfter r s c = (case r of Inl x \<Rightarrow> None | Inr w \<Rightarrow> Some (stores w s c))"

definition handledAfter :: "panic + World \<Rightarrow> effect list option" where
  "handledAfter r = (case r of Inl x \<Rightarrow> None | Inr w \<Rightarrow> Some (filter isFn (trace w)))"

fun isWarning :: "effect \<Rightarrow> bool" where
  "isWarning (Log Warn fs m) = True"
| "isWarning _ = False"

definition warnings :: "World \<Rightarrow> nat" where
  "warnings w = length (filter isWarning (trace w))"

definition warningsAfter :: "panic + World \<Rightarrow> nat option" where
  "warningsAfter r = (case r of Inl x \<Rightarrow> None | Inr w \<Rightarrow> Some (warnings w))"

text \<open>
  An environment in which the HTTP client cannot reach the endpoint (everything before
  the request succeeds), and one in which the endpoint answers.
\<close>

definition reachable :: "error + Response \<Rightarrow> Env" where
  "reachable answered =
     \<lparr>serializeEventWithLayout = (\<lambda>layout ev. Inr ''{}''),
      GetString = (\<lambda>ev s. Inr s),
      Sprint = (\<lambda>event key. ''-''),
      Marshal = (\<lambda>m. Inr ''{}''),
      MarshalLokiMsg = (\<lambda>m. Inr ''{}''),
      NewRequest = (\<lambda>m u b. Inr \<lparr>Method = m, URL = u, Header = [], Body = b\<rparr>),
      Do = (\<lambda>req. answered),
      unixNow = ''1000'',
      basicAuth = (\<lambda>u p. ''Basic'')\<rparr>"

definition refused :: Env where
  "refused = reachable (Inl (Failure ''dial tcp: connection refused''))"

definition teamsCfg :: TeamsConfig where
  "teamsCfg = \<lparr>Endpoint = ''https://teams.example/hook'', Layout = [], Headers = []\<rparr>"

definition lokiCfg :: LokiConfig where
  "lokiCfg =
     \<lparr>LokiConfig.Layout = [], StreamLabels = [(''app'', ''exporter'')],
      URL = ''https://loki.example/push'', Headers = [], Username = [], Password = []\<rparr>"

definition enhanced :: EnhancedEvent where
  "enhanced =
     \<lparr>Event = failedEvent 990000000000 None 0, ClusterName = [],
      InvolvedObject = zeroEnhancedObjectReference\<lparr>ObjectReference := podRef\<rparr>\<rparr>"

section \<open>Properties\<close>

subsection \<open>Running the watcher\<close>

lemma trace_emit: "trace (emit x w) = trace w @ [x]"
  by (simp add: emit_def)

lemma trace_Inc: "trace (Inc s c w) = trace w @ [CounterInc s c]"
  by (simp add: Inc_def emit_def)

lemma stores_emit: "stores (emit x w) = stores w"
  by (simp add: emit_def)

lemma stores_Inc: "stores (Inc s c w) = (stores w)(s := (stores w s)(c := Suc (stores w s c)))"
  by (simp add: Inc_def emit_def)

lemma heap_emit: "heap (emit x w) = heap w"
  by (simp add: emit_def)

lemma heap_Inc: "heap (Inc s c w) = heap w"
  by (simp add: Inc_def emit_def)

lemma isEventDiscarded_run:
  assumes "heap w p = Some event"
  shows "isEventDiscarded e p w =
    Inr (maxEventAgeSeconds e < Since w (eventTimestamp event),
         if maxEventAgeSeconds e < Since w (eventTimestamp event) \<and>
            After (eventTimestamp event) (startUpTime w)
         then Inc (metricsStore e) EventsDiscarded
                (emit (Log Warn
                   [Dur ''event age'' (Since w (eventTimestamp event)),
                    Str ''event namespace'' (ObjectMeta.Namespace (ObjectMeta event)),
                    Str ''event name'' (ObjectMeta.Name (ObjectMeta event))]
                   ''Event discarded as being older than maxEventAgeSeconds'') w)
         else w)"
  using assms by (simp add: isEventDiscarded_def Let_def)

lemma onEvent_discarded:
  assumes "heap w p = Some event" and "maxEventAgeSeconds e < Since w (eventTimestamp event)"
  shows "onEvent e p w =
    Inr (if After (eventTimestamp event) (startUpTime w)
         then Inc (metricsStore e) EventsDiscarded
                (emit (Log Warn
                   [Dur ''event age'' (Since w (eventTimestamp event)),
                    Str ''event namespace'' (ObjectMeta.Namespace (ObjectMeta event)),
                    Str ''event name'' (ObjectMeta.Name (ObjectMeta event))]
                   ''Event discarded as being older than maxEventAgeSeconds'') w)
         else w)"
  using assms by (simp add: onEvent_def isEventDiscarded_run)

lemmas run_simps =
  GetObjectMetadata_def Let_def effectsSince_def trace_emit trace_Inc stores_emit stores_Inc
  heap_emit heap_Inc DeepCopy_def DeepCopyObjectReference_def zeroEnhancedObjectReference_def

lemmas input_simps =
  world_def watcher_def failedEvent_def answer_def podRef_def podMetadata_def
  eventTimestamp_def IsZero_def After_def Since_def Sub_def maxDuration_def minDuration_def
  counterAfter_def handledAfter_def warningsAfter_def warnings_def

text \<open>
  \<^verbatim>\<open>time.Since\<close> is the exact difference unless that leaves the range of a
  Duration, and comparing it with a maximum age below the largest Duration is comparing
  the exact difference.
\<close>

lemma Since_exact:
  assumes "minDuration \<le> now w - t" and "now w - t \<le> maxDuration"
  shows "Since w t = now w - t"
  using assms by (simp add: Since_def Sub_def)

lemma Since_exceeds_iff:
  assumes "minDuration \<le> maxAge" and "maxAge < maxDuration"
  shows "maxAge < Since w t \<longleftrightarrow> maxAge < now w - t"
  using assms by (auto simp add: Since_def Sub_def)

subsection \<open>Discarding by age\<close>

text \<open>
  What the code does with an event whose age exceeds the maximum age: processing it
  returns without calling the handler, and the increment of the events-discarded
  counter stands under the guard of the warning (watcher.go lines 88 to 95), so it is
  made only when the event's timestamp is after the process start time.
\<close>

lemma onEvent_discarded_effects:
  assumes "heap w p = Some event"
    and "maxEventAgeSeconds e < Since w (eventTimestamp event)"
  shows "\<exists>w'. onEvent e p w = Inr w' \<and>
           \<not> list_ex isFn (effectsSince w w') \<and>
           stores w' (metricsStore e) EventsDiscarded =
             stores w (metricsStore e) EventsDiscarded +
               (if After (eventTimestamp event) (startUpTime w) then 1 else 0)"
  using assms
  by (simp add: onEvent_discarded run_simps)

text \<open>
  C1. The claim is that every discarded event is counted once, whether its timestamp
  is before or after the process start time, as the help text of the counter says
  (metrics.go: the total number of events discarded for their age). The code misses
  it: the event of age 10 s, timestamped at 990 s in a process started at 995 s, is
  discarded under a maximum age of 5 s, the handler is not called, and the
  events-discarded counter, 0 before, reads 0 after processing it, not 1.
\<close>

theorem discarded_before_start_not_counted:
  "maxEventAgeSeconds (watcher 3 False 5000000000 None)
     < Since (world 995000000000 (failedEvent 990000000000 None 0))
         (eventTimestamp (failedEvent 990000000000 None 0)) \<and>
   \<not> After (eventTimestamp (failedEvent 990000000000 None 0))
        (startUpTime (world 995000000000 (failedEvent 990000000000 None 0))) \<and>
   stores (world 995000000000 (failedEvent 990000000000 None 0)) 3 EventsDiscarded = 0 \<and>
   handledAfter (onEvent (watcher 3 False 5000000000 None) 0
       (world 995000000000 (failedEvent 990000000000 None 0))) = Some [] \<and>
   counterAfter (onEvent (watcher 3 False 5000000000 None) 0
       (world 995000000000 (failedEvent 990000000000 None 0))) 3 EventsDiscarded = Some 0"
  by (simp add: onEvent_def isEventDiscarded_def input_simps run_simps)

text \<open>
  C3. The timestamp of the age filter is the series' last-observed time when the event
  has a series and that time is not zero; otherwise the last-timestamp field when it
  is not zero; otherwise EventTime. The event is discarded exactly when the time since
  that timestamp (now minus the timestamp, as \<^verbatim>\<open>time.Since\<close> computes it)
  exceeds the maximum age.
\<close>

theorem age_filter_timestamp_priority:
  assumes "heap w p = Some event"
  shows "(\<exists>w'. isEventDiscarded e p w =
            Inr (maxEventAgeSeconds e < Since w (eventTimestamp event), w')) \<and>
         (\<forall>s. Series event = Some s \<and> LastObservedTime s \<noteq> 0 \<longrightarrow>
            eventTimestamp event = LastObservedTime s) \<and>
         ((Series event = None \<or> (\<exists>s. Series event = Some s \<and> LastObservedTime s = 0)) \<and>
          LastTimestamp event \<noteq> 0 \<longrightarrow>
            eventTimestamp event = LastTimestamp event) \<and>
         ((Series event = None \<or> (\<exists>s. Series event = Some s \<and> LastObservedTime s = 0)) \<and>
          LastTimestamp event = 0 \<longrightarrow>
            eventTimestamp event = EventTime event)"
proof -
  have "\<exists>w'. isEventDiscarded e p w =
          Inr (maxEventAgeSeconds e < Since w (eventTimestamp event), w')"
    using assms by (simp add: isEventDiscarded_run)
  moreover have "eventTimestamp event = LastObservedTime s"
    if "Series event = Some s" and "LastObservedTime s \<noteq> 0" for s
    using that by (simp add: eventTimestamp_def IsZero_def)
  moreover have "eventTimestamp event =
      (if LastTimestamp event \<noteq> 0 then LastTimestamp event else EventTime event)"
    if "Series event = None \<or> (\<exists>s. Series event = Some s \<and> LastObservedTime s = 0)"
    using that by (auto simp add: eventTimestamp_def IsZero_def)
  ultimately show ?thesis
    by simp
qed

text \<open>
  With a maximum age of 5 s: a series seen 2 s ago keeps an event whose last timestamp
  is 900 s old; with a zero series time the last timestamp (2 s old) decides; with
  neither, EventTime (10 s old) decides and the event is discarded.
\<close>

theorem age_filter_timestamp_priority_witness:
  "decision (isEventDiscarded (watcher 3 False 5000000000 None) 0
     (world 900000000000
        (failedEvent 100000000000 (Some \<lparr>EventSeries.Count = 3, LastObservedTime = 998000000000\<rparr>)
           50000000000))) = Some False \<and>
   decision (isEventDiscarded (watcher 3 False 5000000000 None) 0
     (world 900000000000
        (failedEvent 998000000000 (Some \<lparr>EventSeries.Count = 3, LastObservedTime = 0\<rparr>)
           50000000000))) = Some False \<and>
   decision (isEventDiscarded (watcher 3 False 5000000000 None) 0
     (world 900000000000 (failedEvent 0 None 990000000000))) = Some True"
proof -
  let ?e = "watcher 3 False 5000000000 None"
  have h: "heap (world 900000000000 ev) 0 = Some ev" for ev
    by (simp add: world_def)
  have d: "decision (isEventDiscarded ?e 0 (world 900000000000 ev)) =
      Some (maxEventAgeSeconds ?e < Since (world 900000000000 ev) (eventTimestamp ev))" for ev
  proof -
    from age_filter_timestamp_priority [OF h [of ev], where e = ?e]
    obtain w' where "isEventDiscarded ?e 0 (world 900000000000 ev) =
        Inr (maxEventAgeSeconds ?e < Since (world 900000000000 ev) (eventTimestamp ev), w')"
      by blast
    then show ?thesis
      by (simp add: decision_def)
  qed
  show ?thesis
    unfolding d by (simp add: input_simps)
qed

subsection \<open>Enrichment\<close>

text \<open>
  C4. When the metadata lookup of a processed event fails, the handler is still called,
  once and as the last step, with an event whose labels, annotations and owner
  references are empty and whose reference is the raw event's involved object; the
  deletion flag is set exactly when the error is "not found".
\<close>

theorem enrichment_failure_still_handled:
  assumes "heap w p = Some event"
    and "\<not> maxEventAgeSeconds e < Since w (eventTimestamp event)"
    and "\<not> omitLookup e"
    and "failure (objectMetadataCache e (Event.InvolvedObject event)) = Some er"
  shows "\<exists>w' ev. onEvent e p w = Inr w' \<and>
           filter isFn (effectsSince w w') = [Fn (fn e) ev] \<and>
           last (trace w') = Fn (fn e) ev \<and>
           EnhancedObjectReference.Deleted (InvolvedObject ev) = IsNotFound er \<and>
           EnhancedObjectReference.Labels (InvolvedObject ev) = Map.empty \<and>
           EnhancedObjectReference.Annotations (InvolvedObject ev) = Map.empty \<and>
           EnhancedObjectReference.OwnerReferences (InvolvedObject ev) = [] \<and>
           ObjectReference (InvolvedObject ev) = Event.InvolvedObject event"
  using assms
  by (cases "IsNotFound er") (simp_all add: onEvent_def isEventDiscarded_run run_simps)

text \<open>The lookup for \<^verbatim>\<open>Pod/default/web-1\<close> answers "not found".\<close>

theorem enrichment_failure_still_handled_witness:
  "\<exists>w' ev. onEvent (watcher 3 False 300000000000 (Some (NotFound ''pods web-1 not found''))) 0
              (world 900000000000 (failedEvent 990000000000 None 0)) = Inr w' \<and>
      filter isFn (trace w') = [Fn 7 ev] \<and>
      EnhancedObjectReference.Deleted (InvolvedObject ev) \<and>
      EnhancedObjectReference.Labels (InvolvedObject ev) = Map.empty \<and>
      EnhancedObjectReference.Annotations (InvolvedObject ev) = Map.empty \<and>
      EnhancedObjectReference.OwnerReferences (InvolvedObject ev) = [] \<and>
      ObjectReference (InvolvedObject ev) = podRef"
proof -
  let ?e = "watcher 3 False 300000000000 (Some (NotFound ''pods web-1 not found''))"
  let ?ev = "failedEvent 990000000000 None 0"
  let ?w = "world 900000000000 ?ev"
  have h: "heap ?w 0 = Some ?ev"
    by (simp add: world_def)
  have a: "\<not> maxEventAgeSeconds ?e < Since ?w (eventTimestamp ?ev)"
    by (simp add: input_simps)
  have l: "\<not> omitLookup ?e"
    by (simp add: watcher_def)
  have f: "failure (objectMetadataCache ?e (Event.InvolvedObject ?ev))
      = Some (NotFound ''pods web-1 not found'')"
    by (simp add: watcher_def answer_def)
  have i: "Event.InvolvedObject ?ev = podRef"
    by (simp add: failedEvent_def)
  have t: "effectsSince ?w w' = trace w'" "fn ?e = 7" for w'
    by (simp_all add: effectsSince_def world_def watcher_def)
  from enrichment_failure_still_handled [OF h a l f]
  show ?thesis
    unfolding i t by auto
qed

text \<open>
  C5. Processing an event that passes the age filter increments the events-processed
  counter once, and the increment comes right after the debug log line: before any
  call to the metadata provider. Processing a discarded event neither increments the
  counter nor calls the provider or the handler.
\<close>

theorem processed_counted_once_before_enrichment:
  assumes "heap w p = Some event"
  shows "\<exists>w'. onEvent e p w = Inr w' \<and>
           (if maxEventAgeSeconds e < Since w (eventTimestamp event)
            then stores w' (metricsStore e) EventsProcessed =
                   stores w (metricsStore e) EventsProcessed \<and>
                 CounterInc (metricsStore e) EventsProcessed \<notin> set (effectsSince w w') \<and>
                 \<not> list_ex isGetObjectMetadataCall (effectsSince w w') \<and>
                 \<not> list_ex isFn (effectsSince w w')
            else stores w' (metricsStore e) EventsProcessed =
                   Suc (stores w (metricsStore e) EventsProcessed) \<and>
                 (\<exists>l post. effectsSince w w' =
                      l # CounterInc (metricsStore e) EventsProcessed # post \<and>
                    l \<noteq> CounterInc (metricsStore e) EventsProcessed \<and>
                    \<not> isGetObjectMetadataCall l \<and>
                    CounterInc (metricsStore e) EventsProcessed \<notin> set post))"
proof (cases "maxEventAgeSeconds e < Since w (eventTimestamp event)")
  case True
  with assms show ?thesis
    by (simp add: onEvent_discarded run_simps)
next
  case False
  with assms show ?thesis
    by (cases "failure (objectMetadataCache e (Event.InvolvedObject event))")
       (simp_all add: onEvent_def isEventDiscarded_run run_simps)
qed

text \<open>An event of age 10 s, under a maximum age of 300 s and of 5 s.\<close>

theorem processed_counted_once_before_enrichment_witness:
  "counterAfter (onEvent (watcher 3 False 300000000000 None) 0
       (world 900000000000 (failedEvent 990000000000 None 0))) 3 EventsProcessed = Some 1 \<and>
   counterAfter (onEvent (watcher 3 False 5000000000 None) 0
       (world 900000000000 (failedEvent 990000000000 None 0))) 3 EventsProcessed = Some 0"
proof -
  let ?ev = "failedEvent 990000000000 None 0"
  let ?w = "world 900000000000 ?ev"
  have h: "heap ?w 0 = Some ?ev"
    by (simp add: world_def)
  have a: "\<not> maxEventAgeSeconds (watcher 3 False 300000000000 None) < Since ?w (eventTimestamp ?ev)"
    "maxEventAgeSeconds (watcher 3 False 5000000000 None) < Since ?w (eventTimestamp ?ev)"
    by (simp_all add: input_simps)
  have s: "metricsStore (watcher 3 False m None) = 3" "stores ?w 3 EventsProcessed = 0" for m
    by (simp_all add: watcher_def world_def)
  from processed_counted_once_before_enrichment [OF h, of "watcher 3 False 300000000000 None"]
  obtain w1 where "onEvent (watcher 3 False 300000000000 None) 0 ?w = Inr w1"
    and "stores w1 3 EventsProcessed = Suc 0"
    unfolding s by (auto simp add: a)
  moreover
  from processed_counted_once_before_enrichment [OF h, of "watcher 3 False 5000000000 None"]
  obtain w2 where "onEvent (watcher 3 False 5000000000 None) 0 ?w = Inr w2"
    and "stores w2 3 EventsProcessed = 0"
    unfolding s by (auto simp add: a)
  ultimately show ?thesis
    by (simp add: counterAfter_def)
qed

subsection \<open>Notifications\<close>

text \<open>
  C6. An add notification and an update notification for an Event both run
  \<^verbatim>\<open>onEvent\<close> on it; an update reads only its new object, so it does what an
  add of that object does; a delete notification changes nothing: no counter, no call.
\<close>

theorem notifications_share_onEvent:
  "OnAdd e (EventPtr p) isInInitialList w = onEvent e p w \<and>
   OnUpdate e oldObj (EventPtr p) w = onEvent e p w \<and>
   OnUpdate e oldObj newObj w = OnAdd e newObj isInInitialList w \<and>
   OnDelete e ob w = Inr w"
  by (simp add: OnAdd_def OnUpdate_def OnDelete_def)

text \<open>The three notifications for the event at address 0, 10 s old and kept.\<close>

theorem notifications_share_onEvent_witness:
  "OnAdd (watcher 3 False 300000000000 None) (EventPtr 0) True
     (world 900000000000 (failedEvent 990000000000 None 0))
     = onEvent (watcher 3 False 300000000000 None) 0
         (world 900000000000 (failedEvent 990000000000 None 0)) \<and>
   OnUpdate (watcher 3 False 300000000000 None) (EventPtr 1) (EventPtr 0)
     (world 900000000000 (failedEvent 990000000000 None 0))
     = onEvent (watcher 3 False 300000000000 None) 0
         (world 900000000000 (failedEvent 990000000000 None 0)) \<and>
   OnDelete (watcher 3 False 300000000000 None) (EventPtr 0)
     (world 900000000000 (failedEvent 990000000000 None 0))
     = Inr (world 900000000000 (failedEvent 990000000000 None 0)) \<and>
   counterAfter (OnAdd (watcher 3 False 300000000000 None) (EventPtr 0) True
     (world 900000000000 (failedEvent 990000000000 None 0))) 3 EventsProcessed = Some 1"
proof -
  let ?e = "watcher 3 False 300000000000 None"
  let ?w = "world 900000000000 (failedEvent 990000000000 None 0)"
  have "counterAfter (onEvent ?e 0 ?w) 3 EventsProcessed = Some 1"
    by (simp add: onEvent_def isEventDiscarded_def input_simps run_simps)
  with notifications_share_onEvent [of ?e 0 True ?w "EventPtr 1" "EventPtr 0" "EventPtr 0"]
  show ?thesis
    by simp
qed

subsection \<open>Processing with the lookup switched off\<close>

text \<open>
  C7. With \<^verbatim>\<open>omitLookup\<close> set, processing an event that is not discarded
  makes no call to the metadata provider (the run is the same whatever provider the
  watcher holds, and the cache counters keep their readings), and the handler receives
  the involved object's reference with empty labels, annotations and owner references
  and the deletion flag unset.
\<close>

theorem omitLookup_bypasses_cache:
  assumes "heap w p = Some event"
    and "\<not> maxEventAgeSeconds e < Since w (eventTimestamp event)"
    and "omitLookup e"
  shows "\<exists>w' ev. onEvent e p w = Inr w' \<and>
           onEvent (e\<lparr>objectMetadataCache := c\<rparr>) p w = Inr w' \<and>
           \<not> list_ex isGetObjectMetadataCall (effectsSince w w') \<and>
           stores w' (metricsStore e) KubeApiReadCacheHits =
             stores w (metricsStore e) KubeApiReadCacheHits \<and>
           stores w' (metricsStore e) KubeApiReadRequests =
             stores w (metricsStore e) KubeApiReadRequests \<and>
           filter isFn (effectsSince w w') = [Fn (fn e) ev] \<and>
           ObjectReference (InvolvedObject ev) = Event.InvolvedObject event \<and>
           EnhancedObjectReference.Labels (InvolvedObject ev) = Map.empty \<and>
           EnhancedObjectReference.Annotations (InvolvedObject ev) = Map.empty \<and>
           EnhancedObjectReference.OwnerReferences (InvolvedObject ev) = [] \<and>
           \<not> EnhancedObjectReference.Deleted (InvolvedObject ev)"
  using assms
  by (simp add: onEvent_def isEventDiscarded_run isEventDiscarded_def run_simps)

text \<open>The kept event of age 10 s on a watcher with the lookup switched off.\<close>

theorem omitLookup_bypasses_cache_witness:
  "\<exists>w' ev. onEvent (watcher 3 True 300000000000 None) 0
              (world 900000000000 (failedEvent 990000000000 None 0)) = Inr w' \<and>
      \<not> list_ex isGetObjectMetadataCall (trace w') \<and>
      stores w' 3 KubeApiReadRequests = 0 \<and>
      filter isFn (trace w') = [Fn 7 ev] \<and>
      ObjectReference (InvolvedObject ev) = podRef \<and>
      EnhancedObjectReference.Labels (InvolvedObject ev) = Map.empty \<and>
      \<not> EnhancedObjectReference.Deleted (InvolvedObject ev)"
proof -
  let ?e = "watcher 3 True 300000000000 None"
  let ?ev = "failedEvent 990000000000 None 0"
  let ?w = "world 900000000000 ?ev"
  have h: "heap ?w 0 = Some ?ev"
    by (simp add: world_def)
  have a: "\<not> maxEventAgeSeconds ?e < Since ?w (eventTimestamp ?ev)"
    by (simp add: input_simps)
  have l: "omitLookup ?e"
    by (simp add: watcher_def)
  have i: "Event.InvolvedObject ?ev = podRef"
    by (simp add: failedEvent_def)
  have t: "effectsSince ?w w' = trace w'" "fn ?e = 7" "metricsStore ?e = 3"
    "stores ?w 3 KubeApiReadRequests = 0" for w'
    by (simp_all add: effectsSince_def world_def watcher_def)
  from omitLookup_bypasses_cache [OF h a l]
  show ?thesis
    unfolding i t by blast
qed

subsection \<open>The event that reaches the handler\<close>

text \<open>
  C8. Processing leaves every Event object on the heap as it was, and the event handed
  to the handler is the raw event with its managed fields emptied.
\<close>

theorem raw_event_untouched_managed_fields_stripped:
  assumes "heap w p = Some event"
  shows "\<exists>w'. onEvent e p w = Inr w' \<and> heap w' = heap w \<and>
           (\<not> maxEventAgeSeconds e < Since w (eventTimestamp event) \<longrightarrow>
            (\<exists>ev. filter isFn (effectsSince w w') = [Fn (fn e) ev] \<and>
               ManagedFields (ObjectMeta (Event ev)) = [] \<and>
               Event ev = event\<lparr>ObjectMeta := (ObjectMeta event)\<lparr>ManagedFields := []\<rparr>\<rparr>))"
proof (cases "maxEventAgeSeconds e < Since w (eventTimestamp event)")
  case True
  with assms show ?thesis
    by (simp add: onEvent_discarded run_simps)
next
  case False
  with assms show ?thesis
    by (cases "failure (objectMetadataCache e (Event.InvolvedObject event))")
       (simp_all add: onEvent_def isEventDiscarded_run run_simps)
qed

text \<open>
  The raw event keeps its managed-fields entry \<^verbatim>\<open>kubelet\<close>; the handler's
  event has none.
\<close>

theorem raw_event_untouched_managed_fields_stripped_witness:
  "\<exists>w' ev. onEvent (watcher 3 False 300000000000 None) 0
              (world 900000000000 (failedEvent 990000000000 None 0)) = Inr w' \<and>
      heap w' 0 = Some (failedEvent 990000000000 None 0) \<and>
      ManagedFields (ObjectMeta (failedEvent 990000000000 None 0)) = [''kubelet''] \<and>
      filter isFn (trace w') = [Fn 7 ev] \<and>
      ManagedFields (ObjectMeta (Event ev)) = [] \<and>
      Reason (Event ev) = ''Failed''"
proof -
  let ?e = "watcher 3 False 300000000000 None"
  let ?ev = "failedEvent 990000000000 None 0"
  let ?w = "world 900000000000 ?ev"
  have h: "heap ?w 0 = Some ?ev"
    by (simp add: world_def)
  have a: "\<not> maxEventAgeSeconds ?e < Since ?w (eventTimestamp ?ev)"
    by (simp add: input_simps)
  have t: "effectsSince ?w w' = trace w'" "fn ?e = 7" for w'
    by (simp_all add: effectsSince_def world_def watcher_def)
  have m: "ManagedFields (ObjectMeta ?ev) = [''kubelet'']"
    "Reason (?ev\<lparr>ObjectMeta := (ObjectMeta ?ev)\<lparr>ManagedFields := []\<rparr>\<rparr>) = ''Failed''"
    by (simp_all add: failedEvent_def)
  from raw_event_untouched_managed_fields_stripped [OF h, of ?e]
  obtain w' ev where "onEvent ?e 0 ?w = Inr w'" and "heap w' = heap ?w"
    and "filter isFn (trace w') = [Fn 7 ev]"
    and "ManagedFields (ObjectMeta (Event ev)) = []"
    and "Event ev = ?ev\<lparr>ObjectMeta := (ObjectMeta ?ev)\<lparr>ManagedFields := []\<rparr>\<rparr>"
    unfolding t using a by blast
  with h m show ?thesis
    by auto
qed

text \<open>
  C10. Whatever path processing takes, every event the handler is called with carries
  the raw event's involved object as its reference (and the call goes to the watcher's
  own handler).
\<close>

theorem handler_receives_involved_object:
  assumes "heap w p = Some event"
    and "onEvent e p w = Inr w'"
    and "Fn h ev \<in> set (effectsSince w w')"
  shows "ObjectReference (InvolvedObject ev) = Event.InvolvedObject event \<and> h = fn e"
proof (cases "maxEventAgeSeconds e < Since w (eventTimestamp event)")
  case True
  with assms show ?thesis
    by (auto simp add: onEvent_discarded run_simps split: if_splits)
next
  case False
  with assms show ?thesis
    by (cases "failure (objectMetadataCache e (Event.InvolvedObject event))")
       (auto simp add: onEvent_def isEventDiscarded_run run_simps split: if_splits)
qed

text \<open>
  The three paths that reach the handler: lookup switched off, lookup failing, lookup
  answering with the pod's metadata.
\<close>

theorem handler_receives_involved_object_witness:
  "(\<exists>w' ev. onEvent (watcher 3 True 300000000000 None) 0
       (world 900000000000 (failedEvent 990000000000 None 0)) = Inr w' \<and>
     Fn 7 ev \<in> set (trace w') \<and> ObjectReference (InvolvedObject ev) = podRef) \<and>
   (\<exists>w' ev. onEvent (watcher 3 False 300000000000 (Some (Failure ''timeout''))) 0
       (world 900000000000 (failedEvent 990000000000 None 0)) = Inr w' \<and>
     Fn 7 ev \<in> set (trace w') \<and> ObjectReference (InvolvedObject ev) = podRef) \<and>
   (\<exists>w' ev. onEvent (watcher 3 False 300000000000 None) 0
       (world 900000000000 (failedEvent 990000000000 None 0)) = Inr w' \<and>
     Fn 7 ev \<in> set (trace w') \<and> ObjectReference (InvolvedObject ev) = podRef \<and>
     EnhancedObjectReference.Labels (InvolvedObject ev) = [''app'' \<mapsto> ''web''])"
proof -
  let ?ev = "failedEvent 990000000000 None 0"
  let ?w = "world 900000000000 ?ev"
  have h: "heap ?w 0 = Some ?ev"
    by (simp add: world_def)
  have i: "Event.InvolvedObject ?ev = podRef"
    by (simp add: failedEvent_def)
  have t: "effectsSince ?w w' = trace w'" for w'
    by (simp add: effectsSince_def world_def)
  have r: "\<exists>w' ev. onEvent (watcher 3 omit 300000000000 failed) 0 ?w = Inr w' \<and>
      Fn 7 ev \<in> set (trace w') \<and>
      (failed = None \<and> \<not> omit \<longrightarrow>
         EnhancedObjectReference.Labels (InvolvedObject ev) = [''app'' \<mapsto> ''web''])"
    for omit failed
    by (cases failed)
       (simp_all add: onEvent_def isEventDiscarded_def input_simps run_simps)
  have "\<exists>w' ev. onEvent (watcher 3 omit 300000000000 failed) 0 ?w = Inr w' \<and>
      Fn 7 ev \<in> set (trace w') \<and> ObjectReference (InvolvedObject ev) = podRef \<and>
      (failed = None \<and> \<not> omit \<longrightarrow>
         EnhancedObjectReference.Labels (InvolvedObject ev) = [''app'' \<mapsto> ''web''])"
    for omit failed
  proof -
    from r [of omit failed] obtain w' ev
      where o: "onEvent (watcher 3 omit 300000000000 failed) 0 ?w = Inr w'"
        and m: "Fn 7 ev \<in> set (trace w')"
        and l: "failed = None \<and> \<not> omit \<longrightarrow>
          EnhancedObjectReference.Labels (InvolvedObject ev) = [''app'' \<mapsto> ''web'']"
      by blast
    from handler_receives_involved_object [OF h o] m
    have "ObjectReference (InvolvedObject ev) = podRef"
      unfolding t i by blast
    with o m l show ?thesis
      by blast
  qed
  from this [of True None] this [of False "Some (Failure ''timeout'')"] this [of False None]
  show ?thesis
    by simp
qed

subsection \<open>The process start time\<close>




subsection \<open>The outcome of Send\<close>

text \<open>
  C2. The claim is that \<^verbatim>\<open>Send\<close> returns no error exactly when the request
  came back with a success status, so that a transport failure gives an error. When
  the HTTP client fails to reach the endpoint, the Loki adapter returns the client's
  error, and the Teams adapter returns \<^verbatim>\<open>nil\<close> (teams.go lines 60 to 63):
  the failure is reported as a success.
\<close>

theorem Teams_Send_swallows_transport_failure:
  "(\<forall>req. Do refused req = Inl (Failure ''dial tcp: connection refused'')) \<and>
   Teams_Send refused teamsCfg enhanced = None \<and>
   Loki_Send refused lokiCfg enhanced = Some (Failure ''dial tcp: connection refused'')"
  by (simp add: Teams_Send_def Loki_Send_def refused_def reachable_def Let_def)

text \<open>
  The same for every environment: once the request is built, a client that fails makes
  the Teams adapter return \<^verbatim>\<open>nil\<close> and the Loki adapter return an error. When
  the Loki adapter returns \<^verbatim>\<open>nil\<close>, a response with a 2xx status was read;
  when the Teams adapter does, either the client failed or a response with status 200
  and without the rate-limit message was read.
\<close>

lemma Teams_Send_transport_failure:
  assumes "serializeEventWithLayout env (TeamsConfig.Layout cfg) ev = Inr event"
    and "\<And>m. \<not> isl (Marshal env m)"
    and "\<And>m u b. \<not> isl (NewRequest env m u b)"
    and "\<And>req. isl (Do env req)"
  shows "Teams_Send env cfg ev = None"
proof -
  have "Marshal env m \<noteq> Inl x" "NewRequest env m' u b \<noteq> Inl x" "Do env req \<noteq> Inr y"
    for m m' u b req x y
    using assms(2) [of m] assms(3) [of m' u b] assms(4) [of req]
    by auto
  with assms(1) show ?thesis
    by (simp add: Teams_Send_def Let_def split: sum.splits)
qed

lemma Loki_Send_transport_failure:
  assumes "\<And>req. isl (Do env req)"
  shows "Loki_Send env cfg ev \<noteq> None"
proof -
  have "Do env req \<noteq> Inr y" for req y
    using assms [of req] by auto
  then show ?thesis
    by (simp add: Loki_Send_def Let_def split: sum.splits)
qed

lemma Loki_Send_nil:
  assumes "Loki_Send env cfg ev = None"
  shows "\<exists>req resp body. Do env req = Inr resp \<and> Response.Body resp = Inr body \<and>
           200 \<le> StatusCode resp \<and> StatusCode resp < 300"
  using assms
  by (auto simp add: Loki_Send_def Let_def split: sum.splits if_splits)

lemma Teams_Send_response:
  assumes "Teams_Send env cfg ev = None"
  shows "(\<exists>req err. Do env req = Inl err) \<or>
         (\<exists>req resp message. Do env req = Inr resp \<and> Response.Body resp = Inr message \<and>
            StatusCode resp = 200 \<and>
            \<not> Contains message ''Microsoft Teams endpoint returned HTTP error 429'')"
  using assms
  by (auto simp add: Teams_Send_def Let_def split: sum.splits if_splits)

lemma Send_nil_when_answered_with_success:
  assumes "Response.Body resp = Inr []" and "StatusCode resp = 200"
  shows "Teams_Send (reachable (Inr resp)) teamsCfg ev = None"
    and "Loki_Send (reachable (Inr resp)) lokiCfg ev = None"
  using assms
  by (simp_all add: Teams_Send_def Loki_Send_def reachable_def Let_def)

end
